theory Spec2Isabelle
  imports Main "HOL-Library.Sublist"
begin

section \<open>Mood classifier (utils.py)\<close>

text \<open>
  A Python string is modelled by the bytes of its UTF-8 encoding, as a \<open>string\<close>. An
  ASCII character is one byte below 128, and every byte of a character outside ASCII
  is 128 or more, so a keyword, which is ASCII, occurs in a text exactly where its bytes
  occur: Python's \<open>word in text\<close> is the contiguous substring test \<open>sublist word text\<close>.

  \<open>str.lower()\<close> puts, in place of each character, its lower-case mapping. On ASCII this
  is fixed: the letters A to Z go to a to z and every other character stays. Outside ASCII
  the mapping is a table of the Unicode database of the interpreter, which is not part of
  the source, and for one character it looks at the neighbours; some entries produce ASCII
  letters (the Kelvin sign becomes k). The table is an argument of the model: for a byte
  that is not ASCII, at a position of the whole text, it gives the bytes that the lowered
  text has in its place (the bytes of the lowered character at its first byte, nothing at
  its other bytes).
\<close>

type_synonym unicode_lower = "string \<Rightarrow> nat \<Rightarrow> char \<Rightarrow> string"

definition ascii_lower :: "char \<Rightarrow> char" where
  "ascii_lower c =
     (if 65 \<le> (of_char c :: nat) \<and> (of_char c :: nat) \<le> 90
      then char_of (of_char c + (32 :: nat)) else c)"

fun lower_from :: "unicode_lower \<Rightarrow> string \<Rightarrow> nat \<Rightarrow> string \<Rightarrow> string" where
  "lower_from ul whole i [] = []"
| "lower_from ul whole i (c # cs) =
     (if (of_char c :: nat) < 128 then [ascii_lower c] else ul whole i c)
       @ lower_from ul whole (Suc i) cs"

definition lower :: "unicode_lower \<Rightarrow> string \<Rightarrow> string" where
  "lower ul text = lower_from ul text 0 text"

definition happy_keywords :: "string list" where
  "happy_keywords =
     [''correct'', ''great'', ''excellent'', ''yes'', ''wonderful'',
      ''perfect'', ''awesome'', ''congratulations'', ''well done'',
      ''fantastic'', ''brilliant'', ''amazing'', ''good job'']"

definition thinking_keywords :: "string list" where
  "thinking_keywords =
     [''let me'', ''think'', ''consider'', ''analyze'', ''hmm'',
      ''interesting'', ''let's see'', ''pondering'', ''evaluating'',
      ''contemplating'']"

definition explaining_keywords :: "string list" where
  "explaining_keywords =
     [''explain'', ''because'', ''therefore'', ''means'', ''definition'',
      ''concept'', ''understand'', ''basically'', ''essentially'',
      ''in other words'', ''for example'', ''specifically'', ''namely'']"

definition confused_keywords :: "string list" where
  "confused_keywords =
     [''sorry'', ''cannot'', ''don't know'', ''unclear'', ''unsure'',
      ''confused'', ''not sure'', ''uncertain'', ''ambiguous'',
      ''difficult to say'']"

text \<open>\<open>any(word in text_lower for word in keywords)\<close>\<close>

definition any_word_in :: "string list \<Rightarrow> string \<Rightarrow> bool" where
  "any_word_in keywords text_lower = list_ex (\<lambda>word. sublist word text_lower) keywords"

definition detect_emotion :: "unicode_lower \<Rightarrow> string \<Rightarrow> string" where
  "detect_emotion ul text =
     (let text_lower = lower ul text in
      if any_word_in happy_keywords text_lower then ''happy''
      else if any_word_in explaining_keywords text_lower then ''explaining''
      else if any_word_in thinking_keywords text_lower then ''thinking''
      else if any_word_in confused_keywords text_lower then ''confused''
      else ''neutral'')"

section \<open>Configuration (config.py)\<close>

text \<open>
  The fields of \<open>Settings\<close> that the service reads. The class is a settings object whose
  defaults can be overridden from the environment, so the functions below take the
  settings as an argument; \<open>settings\<close> holds the defaults written in the source.
\<close>

record Settings =
  EMBEDDING_MODEL :: string
  VECTOR_DB_PATH :: string
  CHUNK_SIZE :: int
  CHUNK_OVERLAP :: int
  RETRIEVAL_K :: int
  DATA_DIR :: string

definition settings :: Settings where
  "settings =
     \<lparr> EMBEDDING_MODEL = ''sentence-transformers/all-MiniLM-L6-v2'',
       VECTOR_DB_PATH = ''./chroma_db'',
       CHUNK_SIZE = 1000,
       CHUNK_OVERLAP = 200,
       RETRIEVAL_K = 3,
       DATA_DIR = ''./data'' \<rparr>"

section \<open>RAG service (rag_service.py)\<close>

subsection \<open>Values, errors and external collaborators\<close>

text \<open>
  An exception is a value: \<open>ValueError\<close> is the one the service raises itself, and
  \<open>ExternalError\<close> stands for any exception raised inside a collaborator (language
  model, embedding model, vector store, document loader, text splitter, chain).
\<close>

datatype exn = ValueError string | ExternalError string

fun str_exn :: "exn \<Rightarrow> string" where
  "str_exn (ValueError msg) = msg"
| "str_exn (ExternalError msg) = msg"

text \<open>The error the spec calls EmptyCorpus is the one \<open>_create_vector_store\<close> raises.\<close>

definition EmptyCorpus :: exn where
  "EmptyCorpus = ValueError ''No documents found in data directory''"

record document =
  page_content :: string
  source :: string

text \<open>
  Every call the service makes to a collaborator is recorded, oldest first. A collaborator
  answers as a function of the calls made so far and of its arguments, so that it may
  answer differently, or fail, from one call to the next.
\<close>

datatype event =
    GetRelevantDocuments int string
  | LlmInvoke string
  | QaChain "string option" string

type_synonym world = "event list"

fun is_llm_invoke :: "event \<Rightarrow> bool" where
  "is_llm_invoke (LlmInvoke prompt) = True"
| "is_llm_invoke _ = False"

text \<open>\<open>llm.invoke(prompt)\<close>, giving \<open>response.content\<close>.\<close>

type_synonym llm_handle = "world \<Rightarrow> string \<Rightarrow> exn + string"

text \<open>\<open>vectorstore.as_retriever(search_kwargs={"k": k}).get_relevant_documents(q)\<close>.\<close>

type_synonym vectorstore_handle = "world \<Rightarrow> int \<Rightarrow> string \<Rightarrow> exn + document list"

text \<open>
  The state of one \<open>ConversationBufferMemory\<close>: the turns saved so far, each the
  question asked and the output stored under \<open>output_key="answer"\<close>, oldest first.
\<close>

type_synonym turn = "string \<times> string"

type_synonym memory = "turn list"

text \<open>The dictionary a chain call returns.\<close>

record chain_output =
  answer :: string
  source_documents :: "document list option"

text \<open>
  A chain object bound to a memory, called on a question: it returns a result or raises,
  and leaves the memory object it holds in some state.
\<close>

type_synonym chain = "world \<Rightarrow> memory \<Rightarrow> string \<Rightarrow> (exn + chain_output) \<times> memory"

text \<open>\<open>ConversationalRetrievalChain.from_llm(llm, retriever, memory, ...)\<close>, with the
  retriever given by the vector store and \<open>k\<close>.\<close>

type_synonym chain_factory = "llm_handle \<Rightarrow> vectorstore_handle \<Rightarrow> int \<Rightarrow> chain"

text \<open>
  Session identifiers are the keys of \<open>chat_memories\<close>. The chat request declares
  \<open>session_id: Optional[str]\<close>, so \<open>None\<close> can reach the dictionary as a key too.
\<close>

record RAGService =
  llm :: llm_handle
  embeddings :: string
  vectorstore :: vectorstore_handle
  chat_memories :: "string option \<rightharpoonup> memory"

subsection \<open>Start-up: loading or building the vector store\<close>

text \<open>
  What start-up sees of the file system: whether \<open>VECTOR_DB_PATH\<close> exists, and the
  files under \<open>DATA_DIR\<close> (name and content), \<open>None\<close> when the directory is absent.
\<close>

record filesystem =
  persist_dir_exists :: bool
  data_dir :: "(string \<times> string) list option"

text \<open>
  The constructors and library calls of start-up. \<open>Chroma.from_documents\<close> writes to
  \<open>persist_directory\<close>; whether the directory exists afterwards is part of its answer.
\<close>

record externals =
  ChatGoogleGenerativeAI :: "exn + llm_handle"
  HuggingFaceEmbeddings :: "string \<Rightarrow> exn + string"
  Chroma :: "exn + vectorstore_handle"
  DirectoryLoader_load :: "(string \<times> string) list \<Rightarrow> exn + document list"
  split_documents :: "int \<Rightarrow> int \<Rightarrow> document list \<Rightarrow> exn + document list"
  Chroma_from_documents :: "document list \<Rightarrow> (exn + vectorstore_handle) \<times> bool"

definition is_space :: "char \<Rightarrow> bool" where
  "is_space c =
     ((of_char c :: nat) = 32 \<or> (9 \<le> (of_char c :: nat) \<and> (of_char c :: nat) \<le> 13)
      \<or> (28 \<le> (of_char c :: nat) \<and> (of_char c :: nat) \<le> 31))"

text \<open>\<open>str.strip()\<close>\<close>

definition strip :: "string \<Rightarrow> string" where
  "strip s = rev (dropWhile is_space (rev (dropWhile is_space s)))"

definition python_basics_txt :: string where
  "python_basics_txt =
        ''\<newline>''
      @ ''Python Programming Basics\<newline>''
      @ ''\<newline>''
      @ ''Python is a high-level, interpreted programming language known for its simplicity and readability.\<newline>''
      @ ''It was created by Guido van Rossum and first released in 1991.\<newline>''
      @ ''\<newline>''
      @ ''Key Features:\<newline>''
      @ ''- Easy to learn and use\<newline>''
      @ ''- Interpreted language\<newline>''
      @ ''- Dynamically typed\<newline>''
      @ ''- Object-oriented\<newline>''
      @ ''- Extensive standard library\<newline>''
      @ ''\<newline>''
      @ ''Python is widely used in:\<newline>''
      @ ''- Web development (Django, Flask)\<newline>''
      @ ''- Data science and analysis\<newline>''
      @ ''- Machine learning and AI\<newline>''
      @ ''- Automation and scripting\<newline>''
      @ ''- Scientific computing\<newline>''
      @ ''            ''"

definition machine_learning_txt :: string where
  "machine_learning_txt =
        ''\<newline>''
      @ ''Machine Learning Fundamentals\<newline>''
      @ ''\<newline>''
      @ ''Machine Learning is a subset of artificial intelligence that enables systems to learn from data.\<newline>''
      @ ''\<newline>''
      @ ''Types of Machine Learning:\<newline>''
      @ ''1. Supervised Learning: Uses labeled training data\<newline>''
      @ ''2. Unsupervised Learning: Uses unlabeled data\<newline>''
      @ ''3. Reinforcement Learning: Learns through interaction\<newline>''
      @ ''\<newline>''
      @ ''Common ML Algorithms:\<newline>''
      @ ''- Linear Regression\<newline>''
      @ ''- Decision Trees\<newline>''
      @ ''- Random Forests\<newline>''
      @ ''- Neural Networks\<newline>''
      @ ''            ''"

definition data_structures_txt :: string where
  "data_structures_txt =
        ''\<newline>''
      @ ''Data Structures and Algorithms\<newline>''
      @ ''\<newline>''
      @ ''Data structures are ways of organizing and storing data efficiently.\<newline>''
      @ ''\<newline>''
      @ ''Common Data Structures:\<newline>''
      @ ''1. Arrays: Fixed-size collection\<newline>''
      @ ''2. Linked Lists: Dynamic size\<newline>''
      @ ''3. Stacks: LIFO (Last In First Out)\<newline>''
      @ ''4. Queues: FIFO (First In First Out)\<newline>''
      @ ''5. Trees: Hierarchical structure\<newline>''
      @ ''6. Graphs: Nodes and edges\<newline>''
      @ ''            ''"


definition samples :: "(string \<times> string) list" where
  "samples =
     [(''python_basics.txt'', python_basics_txt),
      (''machine_learning.txt'', machine_learning_txt),
      (''data_structures.txt'', data_structures_txt)]"

text \<open>\<open>_create_sample_documents\<close>, called on the directory just created.\<close>

definition create_sample_documents :: "filesystem \<Rightarrow> filesystem" where
  "create_sample_documents fs =
     fs\<lparr>data_dir := Some (map (\<lambda>(filename, content). (filename, strip content)) samples)\<rparr>"

definition create_vector_store ::
  "externals \<Rightarrow> Settings \<Rightarrow> filesystem \<Rightarrow> (exn + vectorstore_handle) \<times> filesystem" where
  "create_vector_store ext st fs =
     (let fs1 = (case data_dir fs of
                   None \<Rightarrow> create_sample_documents (fs\<lparr>data_dir := Some []\<rparr>)
                 | Some files \<Rightarrow> fs);
          files = (case data_dir fs1 of None \<Rightarrow> [] | Some fl \<Rightarrow> fl)
      in case DirectoryLoader_load ext files of
           Inl e \<Rightarrow> (Inl e, fs1)
         | Inr documents \<Rightarrow>
             if documents = []
             then (Inl (ValueError ''No documents found in data directory''), fs1)
             else (case split_documents ext (CHUNK_SIZE st) (CHUNK_OVERLAP st) documents of
                     Inl e \<Rightarrow> (Inl e, fs1)
                   | Inr splits \<Rightarrow>
                       (case Chroma_from_documents ext splits of
                          (r, persisted) \<Rightarrow>
                            (r, fs1\<lparr>persist_dir_exists := persisted\<rparr>))))"

definition load_vector_store ::
  "externals \<Rightarrow> Settings \<Rightarrow> filesystem \<Rightarrow> (exn + vectorstore_handle) \<times> filesystem" where
  "load_vector_store ext st fs =
     (if persist_dir_exists fs then (Chroma ext, fs)
      else create_vector_store ext st fs)"

text \<open>
  \<open>_initialize\<close>, run by the constructor, which the module runs at import for the
  global \<open>rag_service\<close>: an exception here leaves no service object.
\<close>

definition initialize ::
  "externals \<Rightarrow> Settings \<Rightarrow> filesystem \<Rightarrow> (exn + RAGService) \<times> filesystem" where
  "initialize ext st fs =
     (case ChatGoogleGenerativeAI ext of
        Inl e \<Rightarrow> (Inl e, fs)
      | Inr the_llm \<Rightarrow>
          (case HuggingFaceEmbeddings ext (EMBEDDING_MODEL st) of
             Inl e \<Rightarrow> (Inl e, fs)
           | Inr emb \<Rightarrow>
               (case load_vector_store ext st fs of
                  (Inl e, fs') \<Rightarrow> (Inl e, fs')
                | (Inr vs, fs') \<Rightarrow>
                    (Inr \<lparr> llm = the_llm, embeddings = emb, vectorstore = vs,
                           chat_memories = Map.empty \<rparr>, fs'))))"

subsection \<open>Single query\<close>

text \<open>\<open>sep.join(parts)\<close>\<close>

fun join :: "string \<Rightarrow> string list \<Rightarrow> string" where
  "join sep [] = []"
| "join sep [x] = x"
| "join sep (x # y # ys) = x @ sep @ join sep (y # ys)"

definition system_instruction :: string where
  "system_instruction = ''You are a friendly AI tutor. Answer clearly and concisely.''"

definition query_prompt :: "string \<Rightarrow> string \<Rightarrow> string" where
  "query_prompt context question =
     system_instruction @ ''\<newline>\<newline>Context: '' @ context
       @ ''\<newline>\<newline>Question: '' @ question @ ''\<newline>\<newline>Answer:''"

definition query ::
  "Settings \<Rightarrow> RAGService \<Rightarrow> string \<Rightarrow> world
     \<Rightarrow> (exn + string \<times> document list) \<times> world" where
  "query st self question w =
     (let w1 = w @ [GetRelevantDocuments (RETRIEVAL_K st) question]
      in case vectorstore self w (RETRIEVAL_K st) question of
           Inl e \<Rightarrow> (Inl e, w1)
         | Inr docs \<Rightarrow>
             (let context = join ''\<newline>\<newline>'' (map page_content docs);
                  prompt = query_prompt context question;
                  w2 = w1 @ [LlmInvoke prompt]
              in case llm self w1 prompt of
                   Inl e \<Rightarrow> (Inl e, w2)
                 | Inr content \<Rightarrow> (Inr (content, docs), w2)))"

subsection \<open>Multi-turn chat\<close>

text \<open>
  \<open>chat\<close> creates the memory of a session on first reference, builds a chain on that
  memory and calls it. The chain is a collaborator: it is made by the factory the
  function is given. Whatever the chain leaves in the memory object stays in
  \<open>chat_memories\<close>; an exception of the chain is logged and raised again.
\<close>

definition chat ::
  "chain_factory \<Rightarrow> Settings \<Rightarrow> RAGService \<Rightarrow> string \<Rightarrow> string option \<Rightarrow> world
     \<Rightarrow> (exn + string \<times> document list) \<times> RAGService \<times> world" where
  "chat from_llm st self question session_id w =
     (let memories = (case chat_memories self session_id of
                        None \<Rightarrow> (chat_memories self)(session_id \<mapsto> [])
                      | Some m \<Rightarrow> chat_memories self);
          mem = (case memories session_id of None \<Rightarrow> [] | Some m \<Rightarrow> m);
          qa_chain = from_llm (llm self) (vectorstore self) (RETRIEVAL_K st);
          w1 = w @ [QaChain session_id question]
      in case qa_chain w mem question of
           (r, mem') \<Rightarrow>
             (let self' = self\<lparr>chat_memories := memories(session_id \<mapsto> mem')\<rparr>
              in case r of
                   Inl e \<Rightarrow> (Inl e, self', w1)
                 | Inr result \<Rightarrow>
                     (Inr (answer result,
                           (case source_documents result of None \<Rightarrow> [] | Some ds \<Rightarrow> ds)),
                      self', w1)))"

text \<open>
  The turns recorded for a session, oldest first; a session never referenced has none.
\<close>

definition history_of :: "RAGService \<Rightarrow> string option \<Rightarrow> memory" where
  "history_of self session_id =
     (case chat_memories self session_id of None \<Rightarrow> [] | Some m \<Rightarrow> m)"

text \<open>
  Modelled from the spec: the call of the conversational chain, which is an object of the
  chain library and is not under src/ (the source only constructs it on the session's
  memory and calls it). The spec (conversational protocol, steps 1 and 5, and its failure
  semantics) has the call fetch the history of the session, produce the answer from that
  history and the question, and append the turn only after a successful generation; a
  failure raises and appends nothing. How the answer is produced (condensing, retrieval,
  prompt) is the argument \<open>answer_from\<close>.
\<close>

definition conversational_chain ::
  "(llm_handle \<Rightarrow> vectorstore_handle \<Rightarrow> int \<Rightarrow> world \<Rightarrow> memory \<Rightarrow> string
      \<Rightarrow> exn + chain_output) \<Rightarrow> chain_factory" where
  "conversational_chain answer_from the_llm retriever k w mem question =
     (case answer_from the_llm retriever k w mem question of
        Inl e \<Rightarrow> (Inl e, mem)
      | Inr result \<Rightarrow> (Inr result, mem @ [(question, answer result)]))"

text \<open>Several chat calls in a row on one session.\<close>

fun chat_all ::
  "chain_factory \<Rightarrow> Settings \<Rightarrow> RAGService \<Rightarrow> string list \<Rightarrow> string option \<Rightarrow> world
     \<Rightarrow> (exn + string \<times> document list) list \<times> RAGService \<times> world" where
  "chat_all from_llm st self [] session_id w = ([], self, w)"
| "chat_all from_llm st self (q # qs) session_id w =
     (case chat from_llm st self q session_id w of
        (r, self1, w1) \<Rightarrow>
          (case chat_all from_llm st self1 qs session_id w1 of
             (rs, self2, w2) \<Rightarrow> (r # rs, self2, w2)))"

text \<open>The answers of the calls that returned, in call order.\<close>

fun answers_of :: "(exn + string \<times> document list) list \<Rightarrow> string list" where
  "answers_of [] = []"
| "answers_of (Inl e # rs) = answers_of rs"
| "answers_of (Inr v # rs) = fst v # answers_of rs"

section \<open>Request models and endpoints (models.py, app.py)\<close>

text \<open>
  A request body as it arrives: each field is absent (\<open>None\<close>) or present. The question
  is declared \<open>Field(..., min_length=1)\<close>: required, of length at least one. The session
  identifier is \<open>Optional[str]\<close> with default \<open>"default"\<close>: absent gives the default,
  and a present value may itself be \<open>None\<close>. A body that fails validation is answered
  with a validation error before the endpoint function is entered.
\<close>

datatype http_error = RequestValidationError | HTTPException nat string

record QueryRequest =
  question_of :: string

record ChatRequest = QueryRequest +
  session_id_of :: "string option"

record Response =
  text_of :: string
  emotion_of :: string

definition validate_question :: "string option \<Rightarrow> http_error + string" where
  "validate_question q =
     (case q of
        None \<Rightarrow> Inl RequestValidationError
      | Some s \<Rightarrow> if length s < 1 then Inl RequestValidationError else Inr s)"

definition parse_QueryRequest :: "string option \<Rightarrow> http_error + QueryRequest" where
  "parse_QueryRequest q =
     (case validate_question q of
        Inl err \<Rightarrow> Inl err
      | Inr s \<Rightarrow> Inr \<lparr> question_of = s \<rparr>)"

definition parse_ChatRequest ::
  "string option \<Rightarrow> string option option \<Rightarrow> http_error + ChatRequest" where
  "parse_ChatRequest q sid =
     (case validate_question q of
        Inl err \<Rightarrow> Inl err
      | Inr s \<Rightarrow>
          Inr \<lparr> question_of = s,
                session_id_of = (case sid of None \<Rightarrow> Some ''default'' | Some v \<Rightarrow> v) \<rparr>)"

definition query_endpoint ::
  "unicode_lower \<Rightarrow> Settings \<Rightarrow> RAGService \<Rightarrow> string option \<Rightarrow> world
     \<Rightarrow> (http_error + Response) \<times> world" where
  "query_endpoint ul st svc body_question w =
     (case parse_QueryRequest body_question of
        Inl err \<Rightarrow> (Inl err, w)
      | Inr request \<Rightarrow>
          (case query st svc (question_of request) w of
             (Inl e, w') \<Rightarrow> (Inl (HTTPException 500 (str_exn e)), w')
           | (Inr (ans, source_docs), w') \<Rightarrow>
               (Inr \<lparr> text_of = ans, emotion_of = detect_emotion ul ans \<rparr>, w')))"

definition chat_endpoint ::
  "unicode_lower \<Rightarrow> chain_factory \<Rightarrow> Settings \<Rightarrow> RAGService \<Rightarrow> string option
     \<Rightarrow> string option option \<Rightarrow> world
     \<Rightarrow> (http_error + Response) \<times> RAGService \<times> world" where
  "chat_endpoint ul from_llm st svc body_question body_session_id w =
     (case parse_ChatRequest body_question body_session_id of
        Inl err \<Rightarrow> (Inl err, svc, w)
      | Inr request \<Rightarrow>
          (case chat from_llm st svc (question_of request) (session_id_of request) w of
             (Inl e, svc', w') \<Rightarrow> (Inl (HTTPException 500 (str_exn e)), svc', w')
           | (Inr (ans, source_docs), svc', w') \<Rightarrow>
               (Inr \<lparr> text_of = ans, emotion_of = detect_emotion ul ans \<rparr>, svc', w')))"

section \<open>Example inputs\<close>

text \<open>Concrete collaborators and states on which the theorems below are instantiated.\<close>

text \<open>
  A lower-case table that knows one character outside ASCII: the Kelvin sign (U+212A, in
  UTF-8 the bytes E2 84 AA) becomes k; every other byte outside ASCII stays.
\<close>

definition kelvin_sign :: string where
  "kelvin_sign = [CHR 0xE2, CHR 0x84, CHR 0xAA]"

definition example_unicode_lower :: unicode_lower where
  "example_unicode_lower whole i c =
     (if take 3 (drop i whole) = kelvin_sign then ''k''
      else if 1 \<le> i \<and> take 3 (drop (i - 1) whole) = kelvin_sign then []
      else if 2 \<le> i \<and> take 3 (drop (i - 2) whole) = kelvin_sign then []
      else [c])"

definition example_loader :: "(string \<times> string) list \<Rightarrow> exn + document list" where
  "example_loader files =
     Inr (map (\<lambda>(name, content). \<lparr> page_content = content, source = name \<rparr>)
            (filter (\<lambda>(name, content). suffix ''.txt'' name) files))"

definition example_externals :: externals where
  "example_externals =
     \<lparr> ChatGoogleGenerativeAI = Inr (\<lambda>w prompt. Inr ''fine''),
       HuggingFaceEmbeddings = (\<lambda>model_name. Inr model_name),
       Chroma = Inl (ExternalError ''no collection''),
       DirectoryLoader_load = example_loader,
       split_documents = (\<lambda>chunk_size chunk_overlap documents. Inr documents),
       Chroma_from_documents = (\<lambda>splits. (Inr (\<lambda>w k q. Inr (take (nat k) splits)), True)) \<rparr>"

definition example_filesystem :: filesystem where
  "example_filesystem =
     \<lparr> persist_dir_exists = False, data_dir = Some [(''notes.md'', ''# Notes'')] \<rparr>"

definition example_docs :: "document list" where
  "example_docs =
     [\<lparr> page_content = ''Python is a language.'', source = ''a.txt'' \<rparr>,
      \<lparr> page_content = ''ML uses data.'', source = ''b.txt'' \<rparr>,
      \<lparr> page_content = ''A stack is LIFO.'', source = ''c.txt'' \<rparr>]"

definition example_service :: RAGService where
  "example_service =
     \<lparr> llm = (\<lambda>w prompt. Inr (''Echo: '' @ prompt)),
       embeddings = ''sentence-transformers/all-MiniLM-L6-v2'',
       vectorstore = (\<lambda>w k q. Inr (take (nat k) example_docs)),
       chat_memories = Map.empty \<rparr>"

text \<open>A chain that raises and, before raising, writes to the memory it was given.\<close>

definition scribbling_chain :: chain_factory where
  "scribbling_chain the_llm retriever k w mem question =
     (Inl (ExternalError ''chain failed''), mem @ [(question, ''partial'')])"

definition example_two_sessions :: RAGService where
  "example_two_sessions =
     example_service\<lparr>chat_memories := [Some ''B'' \<mapsto> [(''hi'', ''hello'')]]\<rparr>"

text \<open>An answering step that succeeds while fewer than two turns are recorded.\<close>

definition answers_twice ::
  "llm_handle \<Rightarrow> vectorstore_handle \<Rightarrow> int \<Rightarrow> world \<Rightarrow> memory \<Rightarrow> string
     \<Rightarrow> exn + chain_output" where
  "answers_twice the_llm retriever k w mem question =
     (if length mem < 2
      then Inr \<lparr> answer = ''Answer to: '' @ question, source_documents = Some [] \<rparr>
      else Inl (ExternalError ''quota exceeded''))"

definition example_after_two :: RAGService where
  "example_after_two =
     example_service\<lparr>chat_memories :=
        [Some ''s1'' \<mapsto> [(''What is ML?'', ''Answer to: What is ML?''),
                          (''Give an example'', ''Answer to: Give an example'')]]\<rparr>"

definition example_world_after_two :: world where
  "example_world_after_two =
     [QaChain (Some ''s1'') ''What is ML?'', QaChain (Some ''s1'') ''Give an example'']"

section \<open>Properties\<close>

subsection \<open>Mood classifier\<close>

lemma any_word_in_iff:
  "any_word_in ks t \<longleftrightarrow> (\<exists>w \<in> set ks. \<exists>ps ss. t = ps @ w @ ss)"
  by (simp add: any_word_in_def list_ex_iff sublist_def)

lemma lower_from_append:
  "lower_from ul whole i (xs @ ys)
     = lower_from ul whole i xs @ lower_from ul whole (i + length xs) ys"
  by (induction xs arbitrary: i) simp_all

lemma lower_from_ascii:
  "\<forall>c \<in> set u. (of_char c :: nat) < 128 \<Longrightarrow> lower_from ul whole i u = map ascii_lower u"
  by (induction u arbitrary: i) simp_all

lemma ascii_lower_eq:
  "ascii_lower =
     (\<lambda>c. if 65 \<le> (of_char c :: nat) \<and> (of_char c :: nat) \<le> 90
          then char_of (of_char c + (32 :: nat)) else c)"
  by (rule ext) (simp add: ascii_lower_def)

lemma lower_ascii:
  "\<forall>c \<in> set t. (of_char c :: nat) < 128 \<Longrightarrow>
     lower ul t =
       map (\<lambda>c. if 65 \<le> (of_char c :: nat) \<and> (of_char c :: nat) \<le> 90
                then char_of (of_char c + (32 :: nat)) else c) t"
  by (simp add: lower_def lower_from_ascii ascii_lower_eq)

lemma lower_occurrence:
  assumes "\<forall>c \<in> set u. (of_char c :: nat) < 128"
  shows "\<exists>ps' ss'. lower ul (ps @ u @ ss) =
           ps' @ map (\<lambda>c. if 65 \<le> (of_char c :: nat) \<and> (of_char c :: nat) \<le> 90
                          then char_of (of_char c + (32 :: nat)) else c) u @ ss'"
  using assms
  by (auto simp: lower_def lower_from_append lower_from_ascii ascii_lower_eq)

lemma any_case_occurrence:
  assumes "w \<in> set ks" and "t = ps @ u @ ss"
    and "\<forall>c \<in> set u. (of_char c :: nat) < 128"
    and "map (\<lambda>c. if 65 \<le> (of_char c :: nat) \<and> (of_char c :: nat) \<le> 90
                  then char_of (of_char c + (32 :: nat)) else c) u = w"
  shows "any_word_in ks (lower ul t)"
proof -
  from lower_occurrence [OF assms(3), of ul ps ss] assms(2,4)
  obtain ps' ss' where "lower ul t = ps' @ w @ ss'"
    by auto
  with assms(1) show ?thesis
    unfolding any_word_in_iff by blast
qed

lemma detect_emotion_range:
  "detect_emotion ul t \<in> {''happy'', ''explaining'', ''thinking'', ''confused'', ''neutral''}"
  by (simp add: detect_emotion_def Let_def)

lemma detect_emotion_cases:
  "(any_word_in happy_keywords (lower ul t) \<longrightarrow> detect_emotion ul t = ''happy'')
   \<and> (\<not> any_word_in happy_keywords (lower ul t)
        \<and> any_word_in explaining_keywords (lower ul t)
        \<longrightarrow> detect_emotion ul t = ''explaining'')
   \<and> (\<not> any_word_in happy_keywords (lower ul t)
        \<and> \<not> any_word_in explaining_keywords (lower ul t)
        \<and> any_word_in thinking_keywords (lower ul t)
        \<longrightarrow> detect_emotion ul t = ''thinking'')
   \<and> (\<not> any_word_in happy_keywords (lower ul t)
        \<and> \<not> any_word_in explaining_keywords (lower ul t)
        \<and> \<not> any_word_in thinking_keywords (lower ul t)
        \<and> any_word_in confused_keywords (lower ul t)
        \<longrightarrow> detect_emotion ul t = ''confused'')
   \<and> (\<not> any_word_in happy_keywords (lower ul t)
        \<and> \<not> any_word_in explaining_keywords (lower ul t)
        \<and> \<not> any_word_in thinking_keywords (lower ul t)
        \<and> \<not> any_word_in confused_keywords (lower ul t)
        \<longrightarrow> detect_emotion ul t = ''neutral'')"
  by (simp add: detect_emotion_def Let_def)

lemma detect_emotion_any_case_happy:
  assumes "w \<in> set happy_keywords" and "t = ps @ u @ ss"
    and "\<forall>c \<in> set u. (of_char c :: nat) < 128"
    and "map (\<lambda>c. if 65 \<le> (of_char c :: nat) \<and> (of_char c :: nat) \<le> 90
                  then char_of (of_char c + (32 :: nat)) else c) u = w"
  shows "detect_emotion ul t = ''happy''"
  using any_case_occurrence [OF assms] detect_emotion_cases [of ul t]
  by simp

lemma detect_emotion_lower_cong:
  "lower ul s = lower ul t \<Longrightarrow> detect_emotion ul s = detect_emotion ul t"
  by (simp add: detect_emotion_def)

text \<open>
  Claim C10. \<open>detect_emotion\<close> is total and always answers one of the five moods. A
  category fires exactly when one of its keywords occurs as a contiguous substring (not
  necessarily a whole word) of the lowered text, and the categories are tried in the order
  happy, explaining, thinking, confused, so a text with a happy keyword is "happy"
  whatever else it contains. Matching ignores case: the answer depends on the text only
  through its lowered form; lowering an ASCII text maps exactly the letters A to Z to a to
  z; an ASCII word standing anywhere in a text, in any letter case, stands lower-cased in
  the lowered text, whatever the lower-case table does outside ASCII; hence a happy
  keyword written in any letter case anywhere in the text makes the answer "happy".
\<close>

theorem detect_emotion_moods_priority:
  "detect_emotion ul t \<in> {''happy'', ''explaining'', ''thinking'', ''confused'', ''neutral''}
   \<and> ((\<exists>w \<in> set happy_keywords. \<exists>ps ss. lower ul t = ps @ w @ ss)
        \<longrightarrow> detect_emotion ul t = ''happy'')
   \<and> (\<not> (\<exists>w \<in> set happy_keywords. \<exists>ps ss. lower ul t = ps @ w @ ss)
        \<and> (\<exists>w \<in> set explaining_keywords. \<exists>ps ss. lower ul t = ps @ w @ ss)
        \<longrightarrow> detect_emotion ul t = ''explaining'')
   \<and> (\<not> (\<exists>w \<in> set happy_keywords. \<exists>ps ss. lower ul t = ps @ w @ ss)
        \<and> \<not> (\<exists>w \<in> set explaining_keywords. \<exists>ps ss. lower ul t = ps @ w @ ss)
        \<and> (\<exists>w \<in> set thinking_keywords. \<exists>ps ss. lower ul t = ps @ w @ ss)
        \<longrightarrow> detect_emotion ul t = ''thinking'')
   \<and> (\<not> (\<exists>w \<in> set happy_keywords. \<exists>ps ss. lower ul t = ps @ w @ ss)
        \<and> \<not> (\<exists>w \<in> set explaining_keywords. \<exists>ps ss. lower ul t = ps @ w @ ss)
        \<and> \<not> (\<exists>w \<in> set thinking_keywords. \<exists>ps ss. lower ul t = ps @ w @ ss)
        \<and> (\<exists>w \<in> set confused_keywords. \<exists>ps ss. lower ul t = ps @ w @ ss)
        \<longrightarrow> detect_emotion ul t = ''confused'')
   \<and> (\<not> (\<exists>w \<in> set happy_keywords. \<exists>ps ss. lower ul t = ps @ w @ ss)
        \<and> \<not> (\<exists>w \<in> set explaining_keywords. \<exists>ps ss. lower ul t = ps @ w @ ss)
        \<and> \<not> (\<exists>w \<in> set thinking_keywords. \<exists>ps ss. lower ul t = ps @ w @ ss)
        \<and> \<not> (\<exists>w \<in> set confused_keywords. \<exists>ps ss. lower ul t = ps @ w @ ss)
        \<longrightarrow> detect_emotion ul t = ''neutral'')
   \<and> (lower ul s = lower ul t \<longrightarrow> detect_emotion ul s = detect_emotion ul t)
   \<and> ((\<forall>c \<in> set t. (of_char c :: nat) < 128) \<longrightarrow>
        lower ul t =
          map (\<lambda>c. if 65 \<le> (of_char c :: nat) \<and> (of_char c :: nat) \<le> 90
                   then char_of (of_char c + (32 :: nat)) else c) t)
   \<and> (\<forall>ps u ss.
         t = ps @ u @ ss \<and> (\<forall>c \<in> set u. (of_char c :: nat) < 128)
         \<longrightarrow> (\<exists>ps' ss'. lower ul t =
                ps' @ map (\<lambda>c. if 65 \<le> (of_char c :: nat) \<and> (of_char c :: nat) \<le> 90
                               then char_of (of_char c + (32 :: nat)) else c) u @ ss'))
   \<and> (\<forall>w \<in> set happy_keywords. \<forall>ps u ss.
         t = ps @ u @ ss \<and> (\<forall>c \<in> set u. (of_char c :: nat) < 128)
         \<and> map (\<lambda>c. if 65 \<le> (of_char c :: nat) \<and> (of_char c :: nat) \<le> 90
                     then char_of (of_char c + (32 :: nat)) else c) u = w
         \<longrightarrow> detect_emotion ul t = ''happy'')"
proof -
  have gen: "\<forall>ps u ss.
         t = ps @ u @ ss \<and> (\<forall>c \<in> set u. (of_char c :: nat) < 128)
         \<longrightarrow> (\<exists>ps' ss'. lower ul t =
                ps' @ map (\<lambda>c. if 65 \<le> (of_char c :: nat) \<and> (of_char c :: nat) \<le> 90
                               then char_of (of_char c + (32 :: nat)) else c) u @ ss')"
    using lower_occurrence [of _ ul] by blast
  note c = detect_emotion_cases [of ul t, unfolded any_word_in_iff]
  have pin: "(\<forall>c \<in> set t. (of_char c :: nat) < 128) \<longrightarrow>
        lower ul t =
          map (\<lambda>c. if 65 \<le> (of_char c :: nat) \<and> (of_char c :: nat) \<le> 90
                   then char_of (of_char c + (32 :: nat)) else c) t"
    using lower_ascii [of t ul] by (rule impI)
  have occ: "\<forall>w \<in> set happy_keywords. \<forall>ps u ss.
         t = ps @ u @ ss \<and> (\<forall>c \<in> set u. (of_char c :: nat) < 128)
         \<and> map (\<lambda>c. if 65 \<le> (of_char c :: nat) \<and> (of_char c :: nat) \<le> 90
                     then char_of (of_char c + (32 :: nat)) else c) u = w
         \<longrightarrow> detect_emotion ul t = ''happy''"
    by (intro ballI allI impI) (elim conjE, rule detect_emotion_any_case_happy)
  have cong: "lower ul s = lower ul t \<longrightarrow> detect_emotion ul s = detect_emotion ul t"
    by (rule impI) (rule detect_emotion_lower_cong)
  show ?thesis
    by (intro conjI detect_emotion_range c [THEN conjunct1]
          c [THEN conjunct2, THEN conjunct1]
          c [THEN conjunct2, THEN conjunct2, THEN conjunct1]
          c [THEN conjunct2, THEN conjunct2, THEN conjunct2, THEN conjunct1]
          c [THEN conjunct2, THEN conjunct2, THEN conjunct2, THEN conjunct2]
          cong pin gen occ)
qed

text \<open>
  The first text has the happy keyword "yes" only inside "YESTERDAY", in upper case, next
  to the confused keyword "not sure" and the explaining keyword "because". The second has
  the thinking keyword "think" only once the Kelvin sign has been lowered to k.
\<close>

theorem detect_emotion_moods_priority_witness:
  "detect_emotion example_unicode_lower ''Not sure, because YESTERDAY'' = ''happy''
   \<and> lower example_unicode_lower (''I thin'' @ kelvin_sign @ '' so'') = ''i think so''
   \<and> detect_emotion example_unicode_lower (''I thin'' @ kelvin_sign @ '' so'') = ''thinking''"
proof -
  have w: "''yes'' \<in> set happy_keywords"
    by (simp add: happy_keywords_def)
  have split: "''Not sure, because YESTERDAY'' = ''Not sure, because '' @ ''YES'' @ ''TERDAY''"
    by simp
  have ascii: "\<forall>c \<in> set ''YES''. (of_char c :: nat) < 128"
    by simp
  have fold: "map (\<lambda>c. if 65 \<le> (of_char c :: nat) \<and> (of_char c :: nat) \<le> 90
                        then char_of (of_char c + (32 :: nat)) else c) ''YES'' = ''yes''"
    by code_simp
  note occ = detect_emotion_moods_priority
      [where ul = example_unicode_lower and t = "''Not sure, because YESTERDAY''",
       THEN conjunct2, THEN conjunct2, THEN conjunct2, THEN conjunct2, THEN conjunct2,
       THEN conjunct2, THEN conjunct2, THEN conjunct2, THEN conjunct2, rule_format]
  have happy: "detect_emotion example_unicode_lower ''Not sure, because YESTERDAY'' = ''happy''"
    by (rule occ [OF w conjI [OF split conjI [OF ascii fold]]])
  have low: "lower example_unicode_lower (''I thin'' @ kelvin_sign @ '' so'') = ''i think so''"
    by code_simp
  have nh: "\<not> any_word_in happy_keywords ''i think so''"
    by code_simp
  have ne: "\<not> any_word_in explaining_keywords ''i think so''"
    by code_simp
  have th: "any_word_in thinking_keywords ''i think so''"
    by code_simp
  note thinking = detect_emotion_moods_priority
      [where ul = example_unicode_lower and t = "''I thin'' @ kelvin_sign @ '' so''",
       THEN conjunct2, THEN conjunct2, THEN conjunct2, THEN conjunct1,
       unfolded low, folded any_word_in_iff, THEN mp]
  have "detect_emotion example_unicode_lower (''I thin'' @ kelvin_sign @ '' so'') = ''thinking''"
    by (rule thinking) (intro conjI nh ne th)
  with happy low show ?thesis
    by (intro conjI)
qed

subsection \<open>Start-up on an empty corpus\<close>

lemma load_vector_store_empty:
  assumes "\<not> persist_dir_exists fs"
    and "DirectoryLoader_load ext
           (case data_dir fs of
              None \<Rightarrow> map (\<lambda>(filename, content). (filename, strip content)) samples
            | Some files \<Rightarrow> files) = Inr []"
  shows "load_vector_store ext st fs =
           (Inl EmptyCorpus,
            case data_dir fs of
              None \<Rightarrow>
                fs\<lparr>data_dir :=
                     Some (map (\<lambda>(filename, content). (filename, strip content)) samples)\<rparr>
            | Some files \<Rightarrow> fs)"
  using assms
  by (cases "data_dir fs")
     (simp_all add: load_vector_store_def create_vector_store_def create_sample_documents_def
        EmptyCorpus_def Let_def)

text \<open>
  Claim C6. When no persisted index exists, so that a fresh build is required, and the
  document loader finds no documents in the data directory (as it stands after the
  sample files have been written, if the directory had to be created), building the
  vector store raises the empty-corpus error; the error leaves \<open>_initialize\<close>, so no
  service object comes to exist, and no persisted index has been created.
\<close>

theorem empty_corpus_fatal:
  assumes "\<not> persist_dir_exists fs"
    and "ChatGoogleGenerativeAI ext = Inr the_llm"
    and "HuggingFaceEmbeddings ext (EMBEDDING_MODEL st) = Inr emb"
    and "DirectoryLoader_load ext
           (case data_dir fs of
              None \<Rightarrow> map (\<lambda>(filename, content). (filename, strip content)) samples
            | Some files \<Rightarrow> files) = Inr []"
  shows "fst (load_vector_store ext st fs) = Inl EmptyCorpus
         \<and> fst (initialize ext st fs) = Inl EmptyCorpus
         \<and> \<not> persist_dir_exists (snd (initialize ext st fs))"
  using assms load_vector_store_empty [OF assms(1) assms(4), of st]
  by (simp add: initialize_def split: option.splits)

theorem empty_corpus_fatal_witness:
  "\<not> persist_dir_exists example_filesystem
   \<and> DirectoryLoader_load example_externals [(''notes.md'', ''# Notes'')] = Inr []
   \<and> fst (initialize example_externals settings example_filesystem) = Inl EmptyCorpus
   \<and> \<not> persist_dir_exists (snd (initialize example_externals settings example_filesystem))"
proof -
  have a: "\<not> persist_dir_exists example_filesystem"
    by (simp add: example_filesystem_def)
  have b: "ChatGoogleGenerativeAI example_externals = Inr (\<lambda>w prompt. Inr ''fine'')"
    by (simp add: example_externals_def)
  have c: "HuggingFaceEmbeddings example_externals (EMBEDDING_MODEL settings)
             = Inr (EMBEDDING_MODEL settings)"
    by (simp add: example_externals_def)
  have l: "DirectoryLoader_load example_externals [(''notes.md'', ''# Notes'')] = Inr []"
    by (simp add: example_externals_def example_loader_def suffix_def)
  have d: "DirectoryLoader_load example_externals
             (case data_dir example_filesystem of
                None \<Rightarrow> map (\<lambda>(filename, content). (filename, strip content)) samples
              | Some files \<Rightarrow> files) = Inr []"
    using l by (simp add: example_filesystem_def)
  from empty_corpus_fatal [OF a b c d] a l show ?thesis
    by simp
qed

subsection \<open>Single query\<close>

lemma join_concat:
  "join sep xs = (case xs of [] \<Rightarrow> [] | x # ys \<Rightarrow> x @ concat (map (\<lambda>y. sep @ y) ys))"
  by (induction sep xs rule: join.induct) simp_all

text \<open>
  Claim C8. Once the retriever has returned the chunks, \<open>query\<close> calls the language
  model exactly once, on the prompt made of the system instruction, then the text of the
  first chunk followed by each further chunk's text in the order retrieved, each preceded
  by a blank line, then the question. It returns the content of the model's response
  unchanged, paired with the retrieved chunks, and an exception of the model is raised
  again as it is. The outcome depends on the model only through its answer to that one
  call: another model that answers that call the same way gives the same outcome.
\<close>

theorem query_builds_prompt_and_invokes_once:
  assumes "vectorstore self w (RETRIEVAL_K st) question = Inr docs"
  shows "snd (query st self question w) =
           w @ [GetRelevantDocuments (RETRIEVAL_K st) question,
                LlmInvoke (''You are a friendly AI tutor. Answer clearly and concisely.''
                  @ ''\<newline>\<newline>Context: ''
                  @ (case docs of
                       [] \<Rightarrow> ''''
                     | d # ds \<Rightarrow>
                         page_content d
                           @ concat (map (\<lambda>x. ''\<newline>\<newline>'' @ page_content x) ds))
                  @ ''\<newline>\<newline>Question: '' @ question @ ''\<newline>\<newline>Answer:'')]
         \<and> length (filter is_llm_invoke (drop (length w) (snd (query st self question w)))) = 1
         \<and> fst (query st self question w) =
             (case llm self (w @ [GetRelevantDocuments (RETRIEVAL_K st) question])
                     (''You are a friendly AI tutor. Answer clearly and concisely.''
                        @ ''\<newline>\<newline>Context: ''
                        @ (case docs of
                             [] \<Rightarrow> ''''
                           | d # ds \<Rightarrow>
                               page_content d
                                 @ concat (map (\<lambda>x. ''\<newline>\<newline>'' @ page_content x) ds))
                        @ ''\<newline>\<newline>Question: '' @ question
                        @ ''\<newline>\<newline>Answer:'') of
                Inl e \<Rightarrow> Inl e
              | Inr content \<Rightarrow> Inr (content, docs))
         \<and> (\<forall>other_llm.
               other_llm (w @ [GetRelevantDocuments (RETRIEVAL_K st) question])
                     (''You are a friendly AI tutor. Answer clearly and concisely.''
                        @ ''\<newline>\<newline>Context: ''
                        @ (case docs of
                             [] \<Rightarrow> ''''
                           | d # ds \<Rightarrow>
                               page_content d
                                 @ concat (map (\<lambda>x. ''\<newline>\<newline>'' @ page_content x) ds))
                        @ ''\<newline>\<newline>Question: '' @ question
                        @ ''\<newline>\<newline>Answer:'')
                 = llm self (w @ [GetRelevantDocuments (RETRIEVAL_K st) question])
                     (''You are a friendly AI tutor. Answer clearly and concisely.''
                        @ ''\<newline>\<newline>Context: ''
                        @ (case docs of
                             [] \<Rightarrow> ''''
                           | d # ds \<Rightarrow>
                               page_content d
                                 @ concat (map (\<lambda>x. ''\<newline>\<newline>'' @ page_content x) ds))
                        @ ''\<newline>\<newline>Question: '' @ question
                        @ ''\<newline>\<newline>Answer:'')
               \<longrightarrow> query st (self\<lparr>llm := other_llm\<rparr>) question w = query st self question w)"
proof -
  have ctx: "join ''\<newline>\<newline>'' (map page_content docs) =
               (case docs of
                  [] \<Rightarrow> ''''
                | d # ds \<Rightarrow>
                    page_content d
                      @ concat (map (\<lambda>x. ''\<newline>\<newline>'' @ page_content x) ds))"
    by (cases docs) (simp_all add: join_concat comp_def)
  show ?thesis
    using assms
    by (simp add: query_def query_prompt_def system_instruction_def Let_def ctx
          split: sum.splits)
qed

theorem query_builds_prompt_and_invokes_once_witness:
  "vectorstore example_service [] (RETRIEVAL_K settings) ''What is Python?'' = Inr example_docs
   \<and> length example_docs = 3
   \<and> query settings example_service ''What is Python?'' [] =
       (Inr (''Echo: You are a friendly AI tutor. Answer clearly and concisely.\<newline>\<newline>Context: Python is a language.\<newline>\<newline>ML uses data.\<newline>\<newline>A stack is LIFO.\<newline>\<newline>Question: What is Python?\<newline>\<newline>Answer:'',
             example_docs),
        [GetRelevantDocuments 3 ''What is Python?'',
         LlmInvoke ''You are a friendly AI tutor. Answer clearly and concisely.\<newline>\<newline>Context: Python is a language.\<newline>\<newline>ML uses data.\<newline>\<newline>A stack is LIFO.\<newline>\<newline>Question: What is Python?\<newline>\<newline>Answer:''])"
proof -
  have r: "vectorstore example_service [] (RETRIEVAL_K settings) ''What is Python?''
             = Inr example_docs"
    by (simp add: example_service_def settings_def example_docs_def)
  have n: "length example_docs = 3"
    by (simp add: example_docs_def)
  have k: "RETRIEVAL_K settings = 3"
    by (simp add: settings_def)
  have l: "llm example_service = (\<lambda>w prompt. Inr (''Echo: '' @ prompt))"
    by (simp add: example_service_def)
  note t = query_builds_prompt_and_invokes_once [OF r]
  have s: "snd (query settings example_service ''What is Python?'' []) =
        [GetRelevantDocuments 3 ''What is Python?'',
         LlmInvoke ''You are a friendly AI tutor. Answer clearly and concisely.\<newline>\<newline>Context: Python is a language.\<newline>\<newline>ML uses data.\<newline>\<newline>A stack is LIFO.\<newline>\<newline>Question: What is Python?\<newline>\<newline>Answer:'']"
    using t [THEN conjunct1] unfolding k by (simp add: example_docs_def)
  have f: "fst (query settings example_service ''What is Python?'' []) =
        Inr (''Echo: You are a friendly AI tutor. Answer clearly and concisely.\<newline>\<newline>Context: Python is a language.\<newline>\<newline>ML uses data.\<newline>\<newline>A stack is LIFO.\<newline>\<newline>Question: What is Python?\<newline>\<newline>Answer:'',
             example_docs)"
    using t [THEN conjunct2, THEN conjunct2, THEN conjunct1] unfolding k l
    by (simp add: example_docs_def)
  from r n s f show ?thesis
    by (simp add: prod_eq_iff)
qed

subsection \<open>Request validation\<close>

lemma query_extends_world: "snd (query st svc q w) \<noteq> w"
  by (simp add: query_def Let_def split: sum.splits)

lemma chat_extends_world: "snd (snd (chat from_llm st svc q sid w)) \<noteq> w"
  by (simp add: chat_def Let_def split: sum.splits prod.splits option.splits)

lemma query_endpoint_invalid:
  "b = None \<or> b = Some '''' \<Longrightarrow> query_endpoint ul st svc b w = (Inl RequestValidationError, w)"
  by (auto simp: query_endpoint_def parse_QueryRequest_def validate_question_def)

lemma chat_endpoint_invalid:
  "b = None \<or> b = Some '''' \<Longrightarrow>
     chat_endpoint ul from_llm st svc b sid w = (Inl RequestValidationError, svc, w)"
  by (auto simp: chat_endpoint_def parse_ChatRequest_def validate_question_def)

lemma query_endpoint_valid:
  assumes "q \<noteq> []"
  shows "fst (query_endpoint ul st svc (Some q) w) \<noteq> Inl RequestValidationError"
    and "snd (query_endpoint ul st svc (Some q) w) = snd (query st svc q w)"
  using assms
  by (auto simp: query_endpoint_def parse_QueryRequest_def validate_question_def
        split: sum.splits prod.splits)

lemma chat_endpoint_valid:
  assumes "q \<noteq> []"
  shows "fst (chat_endpoint ul from_llm st svc (Some q) sid w) \<noteq> Inl RequestValidationError"
    and "snd (snd (chat_endpoint ul from_llm st svc (Some q) sid w))
           = snd (snd (chat from_llm st svc q
                         (case sid of None \<Rightarrow> Some ''default'' | Some v \<Rightarrow> v) w))"
  using assms
  by (auto simp: chat_endpoint_def parse_ChatRequest_def validate_question_def
        split: sum.splits prod.splits)

text \<open>
  Claim C9. A query or chat request whose question is missing or empty is answered with
  the validation error (the spec's InvalidRequest) and nothing else happens: no call to
  the retriever, the model or the chain is made and no session is touched. A request
  with a non-empty question passes validation and reaches the service, so whenever any
  retrieval or generation work has been done the question was non-empty.
\<close>

theorem empty_question_rejected_before_work:
  "(body_question = None \<or> body_question = Some '''' \<longrightarrow>
      query_endpoint ul st svc body_question w = (Inl RequestValidationError, w)
      \<and> chat_endpoint ul from_llm st svc body_question body_session_id w
          = (Inl RequestValidationError, svc, w))
   \<and> (snd (query_endpoint ul st svc body_question w) \<noteq> w \<longrightarrow>
        (\<exists>q. body_question = Some q \<and> q \<noteq> ''''))
   \<and> (snd (snd (chat_endpoint ul from_llm st svc body_question body_session_id w)) \<noteq> w \<longrightarrow>
        (\<exists>q. body_question = Some q \<and> q \<noteq> ''''))
   \<and> (\<forall>q. body_question = Some q \<and> q \<noteq> '''' \<longrightarrow>
        fst (query_endpoint ul st svc body_question w) \<noteq> Inl RequestValidationError
        \<and> snd (query_endpoint ul st svc body_question w) \<noteq> w
        \<and> fst (chat_endpoint ul from_llm st svc body_question body_session_id w)
            \<noteq> Inl RequestValidationError
        \<and> snd (snd (chat_endpoint ul from_llm st svc body_question body_session_id w)) \<noteq> w)"
proof (cases "body_question = None \<or> body_question = Some ''''")
  case True
  then have "query_endpoint ul st svc body_question w = (Inl RequestValidationError, w)"
    and "chat_endpoint ul from_llm st svc body_question body_session_id w
           = (Inl RequestValidationError, svc, w)"
    by (rule query_endpoint_invalid, rule chat_endpoint_invalid)
  with True show ?thesis
    by auto
next
  case False
  then obtain q where q: "body_question = Some q" "q \<noteq> ''''"
    by (cases body_question) auto
  from q(2) have
    "fst (query_endpoint ul st svc (Some q) w) \<noteq> Inl RequestValidationError"
    "snd (query_endpoint ul st svc (Some q) w) \<noteq> w"
    "fst (chat_endpoint ul from_llm st svc (Some q) body_session_id w)
       \<noteq> Inl RequestValidationError"
    "snd (snd (chat_endpoint ul from_llm st svc (Some q) body_session_id w)) \<noteq> w"
    by (simp_all add: query_endpoint_valid chat_endpoint_valid query_extends_world
          chat_extends_world)
  with q show ?thesis
    by simp
qed

theorem empty_question_rejected_before_work_witness:
  "query_endpoint example_unicode_lower settings example_service (Some '''') [] = (Inl RequestValidationError, [])
   \<and> chat_endpoint example_unicode_lower scribbling_chain settings
       example_service None (Some (Some ''s1'')) []
       = (Inl RequestValidationError, example_service, [])"
proof -
  have a: "(Some '''' :: string option) = None \<or> Some '''' = Some ''''"
    by simp
  have b: "(None :: string option) = None \<or> None = Some ''''"
    by simp
  from empty_question_rejected_before_work
         [where body_question = "Some ''''" and ul = example_unicode_lower
            and st = settings and svc = example_service and w = "[]",
          THEN conjunct1, THEN mp, OF a]
       empty_question_rejected_before_work
         [where body_question = None and ul = example_unicode_lower
            and st = settings and svc = example_service and w = "[]"
            and from_llm = scribbling_chain and body_session_id = "Some (Some ''s1'')",
          THEN conjunct1, THEN mp, OF b]
  show ?thesis
    by simp
qed

subsection \<open>Sessions\<close>

lemma chat_other_sessions:
  assumes "chat from_llm st s q a w = (r, s', w')" and "b \<noteq> a"
  shows "chat_memories s' b = chat_memories s b"
  using assms
  by (auto simp: chat_def Let_def split: prod.splits sum.splits option.splits)

lemma chat_same_session:
  assumes "chat from_llm st s q a w = (r, s', w')"
  shows "chat_memories s' a =
           Some (snd (from_llm (llm s) (vectorstore s) (RETRIEVAL_K st) w
                        (case chat_memories s a of None \<Rightarrow> [] | Some m \<Rightarrow> m) q))"
  using assms
  by (auto simp: chat_def Let_def split: prod.splits sum.splits option.splits)

lemma chat_handles:
  assumes "chat from_llm st s q a w = (r, s', w')"
  shows "llm s' = llm s" and "vectorstore s' = vectorstore s"
    and "w' = w @ [QaChain a q]"
  using assms
  by (auto simp: chat_def Let_def split: prod.splits sum.splits option.splits)

text \<open>
  Claim C7. Whatever the chain does, a chat call on session \<open>a\<close> leaves the memory, and
  so the history, of every other session exactly as it was. The chain of the call is
  run on the memory stored for \<open>a\<close>, which is an empty one if \<open>a\<close> was never referenced
  before, and what the chain leaves in that memory is what is stored for \<open>a\<close>
  afterwards, so the next call on \<open>a\<close> runs on the same session.
\<close>

theorem chat_session_isolation:
  assumes "chat from_llm st s q a w = (r, s', w')"
  shows "(\<forall>b. b \<noteq> a \<longrightarrow>
            chat_memories s' b = chat_memories s b \<and> history_of s' b = history_of s b)
         \<and> chat_memories s' a =
             Some (snd (from_llm (llm s) (vectorstore s) (RETRIEVAL_K st) w
                          (case chat_memories s a of None \<Rightarrow> [] | Some m \<Rightarrow> m) q))"
  using chat_other_sessions [OF assms] chat_same_session [OF assms]
  by (simp add: history_of_def)

theorem chat_session_isolation_witness:
  "history_of (fst (snd (chat scribbling_chain settings example_two_sessions
                           ''What is ML?'' (Some ''A'') []))) (Some ''B'')
     = [(''hi'', ''hello'')]
   \<and> chat_memories (fst (snd (chat scribbling_chain settings example_two_sessions
                           ''What is ML?'' (Some ''A'') []))) (Some ''A'')
     = Some [(''What is ML?'', ''partial'')]"
proof -
  let ?X = "chat scribbling_chain settings example_two_sessions ''What is ML?'' (Some ''A'') []"
  have c: "?X = (fst ?X, fst (snd ?X), snd (snd ?X))"
    by simp
  have b: "history_of example_two_sessions (Some ''B'') = [(''hi'', ''hello'')]"
    by (simp add: history_of_def example_two_sessions_def)
  have a: "chat_memories example_two_sessions (Some ''A'') = None"
    by (simp add: example_two_sessions_def)
  have ne: "Some ''B'' \<noteq> Some ''A''"
    by simp
  from chat_session_isolation [OF c] ne b a show ?thesis
    by (simp add: scribbling_chain_def)
qed

subsection \<open>A failing generation and the history\<close>

lemma chat_conv_result:
  "fst (chat (conversational_chain f) st s q a w) =
     (case f (llm s) (vectorstore s) (RETRIEVAL_K st) w (history_of s a) q of
        Inl e \<Rightarrow> Inl e
      | Inr result \<Rightarrow>
          Inr (answer result, case source_documents result of None \<Rightarrow> [] | Some ds \<Rightarrow> ds))"
  by (auto simp: chat_def conversational_chain_def history_of_def Let_def
        split: prod.splits sum.splits option.splits)

lemma chat_conv_history:
  "history_of (fst (snd (chat (conversational_chain f) st s q a w))) b =
     (if b = a
      then (case f (llm s) (vectorstore s) (RETRIEVAL_K st) w (history_of s a) q of
              Inl e \<Rightarrow> history_of s a
            | Inr result \<Rightarrow> history_of s a @ [(q, answer result)])
      else history_of s b)"
  by (auto simp: chat_def conversational_chain_def history_of_def Let_def
        split: prod.splits sum.splits option.splits)

lemma chat_conv_history_result:
  assumes "chat (conversational_chain f) st s q a w = (r, s', w')"
  shows "history_of s' a =
           (case r of Inl e \<Rightarrow> history_of s a | Inr v \<Rightarrow> history_of s a @ [(q, fst v)])"
  using chat_conv_history [of f st s q a w a] chat_conv_result [of f st s q a w] assms
  by (auto split: sum.splits)

lemma chat_all_history:
  assumes "chat_all (conversational_chain f) st s qs a w = (rs, s1, w1)"
    and "\<forall>r \<in> set rs. \<exists>v. r = Inr v"
  shows "history_of s1 a = history_of s a @ zip qs (answers_of rs)
         \<and> length rs = length qs \<and> length (answers_of rs) = length qs
         \<and> llm s1 = llm s \<and> vectorstore s1 = vectorstore s"
  using assms
proof (induction qs arbitrary: s w rs s1 w1)
  case Nil
  then show ?case by simp
next
  case (Cons q qs)
  obtain r s' w' where c: "chat (conversational_chain f) st s q a w = (r, s', w')"
    by (cases "chat (conversational_chain f) st s q a w") auto
  obtain rs' s2 w2 where
    ca: "chat_all (conversational_chain f) st s' qs a w' = (rs', s2, w2)"
    by (cases "chat_all (conversational_chain f) st s' qs a w'") auto
  from Cons.prems(1) c ca have eq: "rs = r # rs'" "s1 = s2" "w1 = w2"
    by simp_all
  from Cons.prems(2) eq obtain v where v: "r = Inr v" and rest: "\<forall>r \<in> set rs'. \<exists>v. r = Inr v"
    by auto
  from Cons.IH [OF ca rest] have ih:
    "history_of s2 a = history_of s' a @ zip qs (answers_of rs')"
    "length rs' = length qs" "length (answers_of rs') = length qs"
    "llm s2 = llm s'" "vectorstore s2 = vectorstore s'"
    by simp_all
  from chat_conv_history_result [OF c] v have h: "history_of s' a = history_of s a @ [(q, fst v)]"
    by simp
  from chat_handles [OF c] have hd: "llm s' = llm s" "vectorstore s' = vectorstore s"
    by simp_all
  show ?case
    using ih h hd eq v by simp
qed

lemma example_run:
  "chat_all (conversational_chain answers_twice) settings example_service
       [''What is ML?'', ''Give an example''] (Some ''s1'') []
     = ([Inr (''Answer to: What is ML?'', []), Inr (''Answer to: Give an example'', [])],
        example_after_two, example_world_after_two)"
  by (simp add: chat_def conversational_chain_def answers_twice_def example_service_def
        example_after_two_def example_world_after_two_def Let_def)

text \<open>
  Claim C1. With the chain call as the spec describes it: after N chat calls on a
  session that all returned, a further call whose generation fails raises that same
  error to the caller, and the history of every session is what it was before the call;
  in particular the session still has exactly the N turns of the calls that returned,
  after those it had at the start. (The call has by then created the memory of a session
  referenced for the first time, but that memory holds no turn.)
\<close>

theorem chat_failure_keeps_history:
  assumes run: "chat_all (conversational_chain f) st s qs a w = (rs, s1, w1)"
    and ok: "\<forall>r \<in> set rs. \<exists>v. r = Inr v"
    and fail: "f (llm s1) (vectorstore s1) (RETRIEVAL_K st) w1 (history_of s1 a) q = Inl e"
  shows "fst (chat (conversational_chain f) st s1 q a w1) = Inl e
         \<and> (\<forall>b. history_of (fst (snd (chat (conversational_chain f) st s1 q a w1))) b
                 = history_of s1 b)
         \<and> history_of (fst (snd (chat (conversational_chain f) st s1 q a w1))) a
             = history_of s a @ zip qs (answers_of rs)
         \<and> length (history_of (fst (snd (chat (conversational_chain f) st s1 q a w1))) a)
             = length (history_of s a) + length qs"
proof -
  have r: "fst (chat (conversational_chain f) st s1 q a w1) = Inl e"
    using fail by (simp add: chat_conv_result)
  have h: "\<And>b. history_of (fst (snd (chat (conversational_chain f) st s1 q a w1))) b
                 = history_of s1 b"
    using fail by (simp add: chat_conv_history)
  from chat_all_history [OF run ok] have
    n: "history_of s1 a = history_of s a @ zip qs (answers_of rs)"
       "length (answers_of rs) = length qs"
    by simp_all
  show ?thesis
    using r h n by simp
qed

theorem chat_failure_keeps_history_witness:
  "chat_all (conversational_chain answers_twice) settings example_service
       [''What is ML?'', ''Give an example''] (Some ''s1'') []
     = ([Inr (''Answer to: What is ML?'', []), Inr (''Answer to: Give an example'', [])],
        example_after_two, example_world_after_two)
   \<and> fst (chat (conversational_chain answers_twice) settings example_after_two
          ''One more?'' (Some ''s1'') example_world_after_two)
     = Inl (ExternalError ''quota exceeded'')
   \<and> history_of (fst (snd (chat (conversational_chain answers_twice) settings example_after_two
          ''One more?'' (Some ''s1'') example_world_after_two))) (Some ''s1'')
     = [(''What is ML?'', ''Answer to: What is ML?''),
        (''Give an example'', ''Answer to: Give an example'')]"
proof -
  have ok: "\<forall>r \<in> set [Inr (''Answer to: What is ML?'', []),
                        Inr (''Answer to: Give an example'', []) :: exn + string \<times> document list].
              \<exists>v. r = Inr v"
    by simp
  have h2: "history_of example_after_two (Some ''s1'')
              = [(''What is ML?'', ''Answer to: What is ML?''),
                 (''Give an example'', ''Answer to: Give an example'')]"
    by (simp add: history_of_def example_after_two_def)
  have fail: "answers_twice (llm example_after_two) (vectorstore example_after_two)
                (RETRIEVAL_K settings) example_world_after_two
                (history_of example_after_two (Some ''s1'')) ''One more?''
              = Inl (ExternalError ''quota exceeded'')"
    unfolding h2 by (simp add: answers_twice_def)
  note t = chat_failure_keeps_history [OF example_run ok fail]
  have r: "fst (chat (conversational_chain answers_twice) settings example_after_two
          ''One more?'' (Some ''s1'') example_world_after_two)
     = Inl (ExternalError ''quota exceeded'')"
    by (rule t [THEN conjunct1])
  have "history_of (fst (snd (chat (conversational_chain answers_twice) settings
          example_after_two ''One more?'' (Some ''s1'') example_world_after_two))) (Some ''s1'')
     = history_of example_after_two (Some ''s1'')"
    by (rule t [THEN conjunct2, THEN conjunct1, THEN spec])
  with h2 example_run r show ?thesis
    by (simp only: simp_thms)
qed

end
